theory Spec2Isabelle
  imports Complex_Main
begin

section \<open>The export and submission handlers of \<^verbatim>\<open>client/src/components/ds.jsx\<close>\<close>

text \<open>
  The component \<^verbatim>\<open>SimpleMedicalExtractor\<close> has two handlers with logic of their own:
  \<^verbatim>\<open>handleDownload\<close>, which slices the captured canvas into A4 pages, and
  \<^verbatim>\<open>handleSubmit\<close>, which sends the text to the extraction service and labels the
  answer as cached from its latency. Both are embedded here as functions from the
  component state (and the answers of the outside world) to the new state.
\<close>

subsection \<open>JavaScript numbers\<close>

text \<open>
  A JavaScript number is an IEEE double. Its finite values are kept as exact rationals;
  the three special values appear because \<^verbatim>\<open>handleDownload\<close> divides by the canvas
  width without a test. Signed zero is not distinguished.
\<close>

datatype jsnum = Fin rat | PosInf | NegInf | NaN

fun js_mul :: "jsnum \<Rightarrow> jsnum \<Rightarrow> jsnum" where
  "js_mul (Fin a) (Fin b) = Fin (a * b)"
| "js_mul NaN _ = NaN"
| "js_mul _ NaN = NaN"
| "js_mul (Fin a) PosInf = (if a = 0 then NaN else if 0 < a then PosInf else NegInf)"
| "js_mul (Fin a) NegInf = (if a = 0 then NaN else if 0 < a then NegInf else PosInf)"
| "js_mul PosInf (Fin b) = (if b = 0 then NaN else if 0 < b then PosInf else NegInf)"
| "js_mul NegInf (Fin b) = (if b = 0 then NaN else if 0 < b then NegInf else PosInf)"
| "js_mul PosInf PosInf = PosInf"
| "js_mul PosInf NegInf = NegInf"
| "js_mul NegInf PosInf = NegInf"
| "js_mul NegInf NegInf = PosInf"

fun js_div :: "jsnum \<Rightarrow> jsnum \<Rightarrow> jsnum" where
  "js_div (Fin a) (Fin b) =
     (if b = 0 then (if a = 0 then NaN else if 0 < a then PosInf else NegInf)
      else Fin (a / b))"
| "js_div NaN _ = NaN"
| "js_div _ NaN = NaN"
| "js_div (Fin a) PosInf = Fin 0"
| "js_div (Fin a) NegInf = Fin 0"
| "js_div PosInf (Fin b) = (if 0 \<le> b then PosInf else NegInf)"
| "js_div NegInf (Fin b) = (if 0 \<le> b then NegInf else PosInf)"
| "js_div PosInf PosInf = NaN"
| "js_div PosInf NegInf = NaN"
| "js_div NegInf PosInf = NaN"
| "js_div NegInf NegInf = NaN"

fun js_sub :: "jsnum \<Rightarrow> jsnum \<Rightarrow> jsnum" where
  "js_sub (Fin a) (Fin b) = Fin (a - b)"
| "js_sub NaN _ = NaN"
| "js_sub _ NaN = NaN"
| "js_sub (Fin a) PosInf = NegInf"
| "js_sub (Fin a) NegInf = PosInf"
| "js_sub PosInf (Fin b) = PosInf"
| "js_sub NegInf (Fin b) = NegInf"
| "js_sub PosInf PosInf = NaN"
| "js_sub PosInf NegInf = PosInf"
| "js_sub NegInf PosInf = NegInf"
| "js_sub NegInf NegInf = NaN"

text \<open>The comparison \<^verbatim>\<open>a >= b\<close>: false as soon as one side is NaN.\<close>

fun js_ge :: "jsnum \<Rightarrow> jsnum \<Rightarrow> bool" where
  "js_ge (Fin a) (Fin b) = (b \<le> a)"
| "js_ge NaN _ = False"
| "js_ge _ NaN = False"
| "js_ge PosInf _ = True"
| "js_ge _ NegInf = True"
| "js_ge (Fin a) PosInf = False"
| "js_ge NegInf (Fin b) = False"
| "js_ge NegInf PosInf = False"

subsection \<open>The canvas and the document\<close>

text \<open>
  \<^verbatim>\<open>html2canvas\<close> and \<^verbatim>\<open>jsPDF\<close> are libraries outside the repository. Of the canvas
  the handler reads \<^verbatim>\<open>width\<close> and \<^verbatim>\<open>height\<close> only (unsigned integers of the DOM).
  The document is the sequence of its pages, each page the sequence of images drawn
  on it; a \<^verbatim>\<open>jsPDF\<close> document always has a current page, the last one.
\<close>

record canvas =
  width :: nat
  height :: nat

text \<open>One call \<^verbatim>\<open>pdf.addImage(canvas, "PNG", x, y, w, h)\<close>.\<close>

record draw =
  dx :: jsnum
  dy :: jsnum
  dw :: jsnum
  dh :: jsnum

record pdf =
  earlier :: "draw list list"
  current :: "draw list"

definition new_jsPDF :: pdf where
  "new_jsPDF = \<lparr>earlier = [], current = []\<rparr>"

definition addPage :: "pdf \<Rightarrow> pdf" where
  "addPage p = \<lparr>earlier = earlier p @ [current p], current = []\<rparr>"

text \<open>
  \<^verbatim>\<open>addImage\<close> receives the canvas and the numbers the handler computed. Whether the
  library throws for a given canvas and given arguments is not decided by the
  repository, so it is a parameter: \<open>throws c d\<close> is the message of the error thrown for
  the call \<open>d\<close> with the canvas \<open>c\<close>, or \<open>None\<close> when the image is drawn.
\<close>

definition addImage ::
  "(canvas \<Rightarrow> draw \<Rightarrow> string option) \<Rightarrow> pdf \<Rightarrow> canvas \<Rightarrow> draw \<Rightarrow> string + pdf" where
  "addImage throws p c d =
     (case throws c d of
        Some msg \<Rightarrow> Inl msg
      | None \<Rightarrow> Inr (p\<lparr>current := current p @ [d]\<rparr>))"

definition pages :: "pdf \<Rightarrow> draw list list" where
  "pages p = earlier p @ [current p]"

subsection \<open>Pagination: lines 178 to 200 of \<^verbatim>\<open>handleDownload\<close>\<close>

definition imgWidth :: jsnum where
  "imgWidth = Fin 210"

definition pageHeight :: jsnum where
  "pageHeight = Fin 297"

text \<open>\<^verbatim>\<open>const imgHeight = (canvas.height * imgWidth) / canvas.width;\<close>\<close>

definition imgHeight :: "canvas \<Rightarrow> jsnum" where
  "imgHeight c = js_div (js_mul (Fin (of_nat (height c))) imgWidth) (Fin (of_nat (width c)))"

text \<open>
  The \<^verbatim>\<open>while (heightLeft >= 0)\<close> loop. It has no bound of its own, so a run that never
  leaves it is the value \<open>None\<close>; an error thrown by \<^verbatim>\<open>addImage\<close> leaves it as \<open>Inl\<close>.
\<close>

partial_function (option)
  add_pages ::
    "(canvas \<Rightarrow> draw \<Rightarrow> string option) \<Rightarrow> canvas \<Rightarrow> jsnum \<Rightarrow> jsnum \<Rightarrow> pdf \<Rightarrow> (string + pdf) option"
where
  "add_pages throws c imgH heightLeft p =
     (if js_ge heightLeft (Fin 0) then
        (let position = js_sub heightLeft imgH in
         case addImage throws (addPage p) c \<lparr>dx = Fin 0, dy = position, dw = imgWidth, dh = imgH\<rparr> of
           Inl msg \<Rightarrow> Some (Inl msg)
         | Inr p' \<Rightarrow> add_pages throws c imgH (js_sub heightLeft pageHeight) p')
      else Some (Inr p))"

definition paginate ::
  "(canvas \<Rightarrow> draw \<Rightarrow> string option) \<Rightarrow> canvas \<Rightarrow> (string + pdf) option" where
  "paginate throws c =
     (let imgH = imgHeight c;
          p = new_jsPDF;
          heightLeft = imgH;
          position = Fin 0
      in case addImage throws p c \<lparr>dx = Fin 0, dy = position, dw = imgWidth, dh = imgH\<rparr> of
           Inl msg \<Rightarrow> Some (Inl msg)
         | Inr p' \<Rightarrow> add_pages throws c imgH (js_sub heightLeft pageHeight) p')"

subsection \<open>Values, strings and promises\<close>

text \<open>
  What \<^verbatim>\<open>response.json()\<close> can give, and \<^verbatim>\<open>undefined\<close> for a property that is not
  there. The state variable \<^verbatim>\<open>rawOutput\<close> holds such a value: the handler stores
  \<^verbatim>\<open>result.raw_llama_output\<close> as it is.
\<close>

datatype jsval =
    JUndefined
  | JNull
  | JBool bool
  | JNum rat
  | JStr string
  | JArr "jsval list"
  | JObj "(string \<times> jsval) list"

fun truthy :: "jsval \<Rightarrow> bool" where
  "truthy JUndefined = False"
| "truthy JNull = False"
| "truthy (JBool b) = b"
| "truthy (JNum n) = (n \<noteq> 0)"
| "truthy (JStr s) = (s \<noteq> [])"
| "truthy (JArr _) = True"
| "truthy (JObj _) = True"

text \<open>
  The property read \<^verbatim>\<open>result.raw_llama_output\<close>. On \<^verbatim>\<open>null\<close> it throws a TypeError,
  whose message depends on the engine and is a parameter; on any other value without
  the property it is \<^verbatim>\<open>undefined\<close>.
\<close>

fun get_prop :: "string \<Rightarrow> jsval \<Rightarrow> string \<Rightarrow> string + jsval" where
  "get_prop tmsg JNull k = Inl tmsg"
| "get_prop tmsg JUndefined k = Inl tmsg"
| "get_prop tmsg (JObj kvs) k = Inr (case map_of kvs k of None \<Rightarrow> JUndefined | Some v \<Rightarrow> v)"
| "get_prop tmsg v k = Inr JUndefined"

text \<open>
  A string is its sequence of code units, of which \<^typ>\<open>char\<close> keeps those below 256.
  Among them \<^verbatim>\<open>String.prototype.trim\<close> removes tab, line feed, vertical tab, form feed,
  carriage return, space and the no-break space.
\<close>

definition js_whitespace :: "char \<Rightarrow> bool" where
  "js_whitespace c = (c \<in> set [CHR 0x09, CHR 0x0A, CHR 0x0B, CHR 0x0C, CHR 0x0D, CHR 0x20, CHR 0xA0])"

definition trim :: "string \<Rightarrow> string" where
  "trim s = rev (dropWhile js_whitespace (rev (dropWhile js_whitespace s)))"

fun starts_with :: "string \<Rightarrow> string \<Rightarrow> bool" where
  "starts_with _ [] = True"
| "starts_with [] (y # ys) = False"
| "starts_with (x # xs) (y # ys) = (x = y \<and> starts_with xs ys)"

text \<open>\<^verbatim>\<open>hay.includes(needle)\<close>\<close>

fun includes_js :: "string \<Rightarrow> string \<Rightarrow> bool" where
  "includes_js [] needle = (needle = [])"
| "includes_js (x # xs) needle = (starts_with (x # xs) needle \<or> includes_js xs needle)"

text \<open>A non-negative integer inside a template literal: its decimal digits.\<close>

definition digit :: "nat \<Rightarrow> char" where
  "digit n = char_of (48 + n)"

fun show_nat :: "nat \<Rightarrow> string" where
  "show_nat n = (if n < 10 then [digit n] else show_nat (n div 10) @ [digit (n mod 10)])"

text \<open>
  The outcome of an awaited promise: a rejection is caught with its \<^verbatim>\<open>err.message\<close>,
  the only part of the error the handlers read.
\<close>

datatype 'a settled = Rejected string | Resolved 'a

subsection \<open>The component state\<close>

record app_state =
  medicalText :: string
  rawOutput :: jsval
  loading :: bool
  error :: string
  showModal :: bool
  isCached :: bool

subsection \<open>\<^verbatim>\<open>handleDownload\<close>\<close>

text \<open>
  The world of one export: whether \<^verbatim>\<open>outputRef.current\<close> is there, what \<^verbatim>\<open>html2canvas\<close>
  answers, for which calls \<^verbatim>\<open>addImage\<close> throws, and \<^verbatim>\<open>new Date().toISOString()\<close>.
  The result is the new state and the file handed to \<^verbatim>\<open>pdf.save\<close>, if any; \<open>None\<close> when
  the page loop never ends.
\<close>

record download_env =
  element :: bool
  capture :: "canvas settled"
  addImageThrows :: "canvas \<Rightarrow> draw \<Rightarrow> string option"
  isoNow :: string

definition filename :: "string \<Rightarrow> string" where
  "filename isoDate = ''medical_record_'' @ takeWhile (\<lambda>c. c \<noteq> CHR ''T'') isoDate @ ''.pdf''"

definition handleDownload ::
  "download_env \<Rightarrow> app_state \<Rightarrow> (app_state \<times> (string \<times> pdf) option) option" where
  "handleDownload env st =
     (if \<not> truthy (rawOutput st) then Some (st\<lparr>error := ''No output to download''\<rparr>, None)
      else if \<not> element env then Some (st\<lparr>error := ''Could not find output element''\<rparr>, None)
      else case capture env of
             Rejected msg \<Rightarrow> Some (st\<lparr>error := ''Failed to generate PDF: '' @ msg\<rparr>, None)
           | Resolved c \<Rightarrow>
               (case paginate (addImageThrows env) c of
                  None \<Rightarrow> None
                | Some (Inl msg) \<Rightarrow> Some (st\<lparr>error := ''Failed to generate PDF: '' @ msg\<rparr>, None)
                | Some (Inr p) \<Rightarrow> Some (st, Some (filename (isoNow env), p))))"

subsection \<open>\<^verbatim>\<open>handleSubmit\<close>\<close>

record request =
  url :: string
  httpMethod :: string
  contentType :: string
  medical_text :: string

text \<open>
  Of the response the handler reads \<^verbatim>\<open>ok\<close>, \<^verbatim>\<open>status\<close>, \<^verbatim>\<open>text()\<close> and \<^verbatim>\<open>json()\<close>.
  By the Fetch standard \<^verbatim>\<open>ok\<close> is true exactly for a status from 200 to 299.
\<close>

record response =
  status :: nat
  text_body :: "string settled"
  json_body :: "jsval settled"

definition ok :: "response \<Rightarrow> bool" where
  "ok r = (200 \<le> status r \<and> status r \<le> 299)"

text \<open>
  The world of one submission: the service behind \<^verbatim>\<open>fetch\<close>, the number that line 73
  computes, \<^verbatim>\<open>JSON.stringify(_, null, 2)\<close> (a built-in, taken as it is) and the engine's
  message for a property read on \<^verbatim>\<open>null\<close>. Line 73 subtracts two readings of
  \<^verbatim>\<open>performance.now()\<close> as doubles, and the readings are used for nothing else: the
  difference the engine computes, rounding included, is taken as it is.
\<close>

record submit_env =
  fetch :: "request \<Rightarrow> response settled"
  responseTime :: rat
  stringify :: "jsval \<Rightarrow> string"
  typeErrorMessage :: string

definition extract_request :: "app_state \<Rightarrow> request" where
  "extract_request st =
     \<lparr>url = ''http://localhost:8000/extract'', httpMethod = ''POST'',
      contentType = ''application/json'', medical_text = medicalText st\<rparr>"

text \<open>Lines 45 to 48: what is set before the exchange.\<close>

definition begin_submit :: "app_state \<Rightarrow> app_state" where
  "begin_submit st = st\<lparr>loading := True, error := [], rawOutput := JStr [], isCached := False\<rparr>"

text \<open>
  The \<^verbatim>\<open>try\<close> block, lines 52 to 78: \<open>Inl\<close> is the message of what was thrown. Every
  throw comes before the first state update of the block.
\<close>

definition try_submit :: "submit_env \<Rightarrow> app_state \<Rightarrow> string + app_state" where
  "try_submit env st =
     (case fetch env (extract_request st) of
        Rejected msg \<Rightarrow> Inl msg
      | Resolved r \<Rightarrow>
          if \<not> ok r then
            (case text_body r of
               Rejected msg \<Rightarrow> Inl msg
             | Resolved body \<Rightarrow> Inl (''HTTP '' @ show_nat (status r) @ '': '' @ body))
          else
            (case json_body r of
               Rejected msg \<Rightarrow> Inl msg
             | Resolved result \<Rightarrow>
                 (case get_prop (typeErrorMessage env) result ''raw_llama_output'' of
                    Inl msg \<Rightarrow> Inl msg
                  | Inr v \<Rightarrow>
                      if truthy v then
                        Inr (st\<lparr>rawOutput := v, showModal := True,
                                isCached := (responseTime env < 100)\<rparr>)
                      else
                        Inr (st\<lparr>rawOutput := JStr (stringify env result), showModal := True\<rparr>))))"

text \<open>The \<^verbatim>\<open>catch\<close> block, lines 79 to 87.\<close>

definition catch_submit :: "string \<Rightarrow> app_state \<Rightarrow> app_state" where
  "catch_submit msg st =
     (if includes_js msg ''Failed to fetch''
      then st\<lparr>error := ''Connection error. Make sure the backend server is running on port 8000.''\<rparr>
      else st\<lparr>error := ''Error: '' @ msg\<rparr>)"

text \<open>
  The handler: the new state and the requests it sent. The early return of line 42
  comes before the \<^verbatim>\<open>try\<close>, so the \<^verbatim>\<open>finally\<close> of line 89 does not run there.
\<close>

definition handleSubmit :: "submit_env \<Rightarrow> app_state \<Rightarrow> app_state \<times> request list" where
  "handleSubmit env st =
     (if trim (medicalText st) = [] then (st\<lparr>error := ''Please enter medical text''\<rparr>, [])
      else
        (let st1 = begin_submit st;
             st2 = (case try_submit env st1 of
                      Inr st' \<Rightarrow> st'
                    | Inl msg \<Rightarrow> catch_submit msg st1)
         in (st2\<lparr>loading := False\<rparr>, [extract_request st])))"

subsection \<open>What is read off a document\<close>

text \<open>
  A placement is one image drawn on one page; its vertical offset is the \<^verbatim>\<open>y\<close> of the
  call. \<open>offsets\<close> lists, page by page, the offsets of the images drawn there. An A4
  page is 297 mm high, so a document of \<open>n\<close> pages renders \<open>n * 297\<close> mm.
\<close>

definition offsets :: "pdf \<Rightarrow> jsnum list list" where
  "offsets p = map (map dy) (pages p)"

definition rendered_height :: "pdf \<Rightarrow> rat" where
  "rendered_height p = of_nat (length (pages p)) * 297"


section \<open>The page loop\<close>

lemma add_pages_finite:
  assumes acc: "\<And>d. throws c d = None"
  shows "hl < 297 * of_nat n \<Longrightarrow> (0 < n \<longrightarrow> 297 * (of_nat n - 1) \<le> hl) \<Longrightarrow>
    \<exists>q. add_pages throws c (Fin H) (Fin hl) p = Some (Inr q) \<and>
        pages q = pages p @ map (\<lambda>j. [\<lparr>dx = Fin 0, dy = Fin (hl - 297 * of_nat j - H), dw = imgWidth, dh = Fin H\<rparr>]) [0..<n]"
proof (induction n arbitrary: hl p)
  case 0
  then have "\<not> js_ge (Fin hl) (Fin 0)" by simp
  then show ?case by (subst add_pages.simps) simp
next
  case (Suc n)
  let ?d = "\<lparr>dx = Fin 0, dy = Fin (hl - H), dw = imgWidth, dh = Fin H\<rparr>"
  have "(0::rat) \<le> 297 * of_nat n" by simp
  with Suc.prems have ge: "0 \<le> hl" by simp
  define p1 where "p1 = \<lparr>earlier = earlier p @ [current p], current = [?d]\<rparr>"
  have p1: "addImage throws (addPage p) c ?d = Inr p1" "pages p1 = pages p @ [[?d]]"
    by (simp_all add: p1_def addImage_def addPage_def pages_def acc)
  have a: "hl - 297 < 297 * of_nat n" using Suc.prems by (simp add: algebra_simps)
  have b: "0 < n \<longrightarrow> 297 * (of_nat n - 1) \<le> hl - 297" using Suc.prems by (simp add: algebra_simps)
  from Suc.IH [OF a b, of p1] obtain q where
    q: "add_pages throws c (Fin H) (Fin (hl - 297)) p1 = Some (Inr q)"
       "pages q = pages p1 @ map (\<lambda>j. [\<lparr>dx = Fin 0, dy = Fin (hl - 297 - 297 * of_nat j - H), dw = imgWidth, dh = Fin H\<rparr>]) [0..<n]"
    by blast
  have step: "add_pages throws c (Fin H) (Fin hl) p = add_pages throws c (Fin H) (Fin (hl - 297)) p1"
    by (subst add_pages.simps) (simp add: ge p1 pageHeight_def)
  have pq: "pages q = pages p @ map (\<lambda>j. [\<lparr>dx = Fin 0, dy = Fin (hl - 297 * of_nat j - H), dw = imgWidth, dh = Fin H\<rparr>]) [0..<Suc n]"
    unfolding q(2) p1(2) by (simp add: map_upt_Suc algebra_simps del: upt_Suc)
  show ?case
  proof (intro exI conjI)
    show "add_pages throws c (Fin H) (Fin hl) p = Some (Inr q)"
      by (simp only: step q(1))
    show "pages q = pages p @ map (\<lambda>j. [\<lparr>dx = Fin 0, dy = Fin (hl - 297 * of_nat j - H), dw = imgWidth, dh = Fin H\<rparr>]) [0..<Suc n]"
      by (rule pq)
  qed
qed


lemma imgHeight_finite:
  "0 < width c \<Longrightarrow> imgHeight c = Fin (of_nat (height c) * 210 / of_nat (width c))"
  by (simp add: imgHeight_def imgWidth_def)

lemma imgHeight_zero_width:
  "width c = 0 \<Longrightarrow> imgHeight c = (if height c = 0 then NaN else PosInf)"
  by (simp add: imgHeight_def imgWidth_def)

lemma imgHeight_Fin:
  assumes "imgHeight c = Fin H"
  shows "0 < width c" and "H = of_nat (height c) * 210 / of_nat (width c)" and "0 \<le> H"
proof -
  show w: "0 < width c"
  proof (rule ccontr)
    assume "\<not> 0 < width c"
    then have "width c = 0" by simp
    from imgHeight_zero_width [OF this] assms show False by (simp split: if_splits)
  qed
  from imgHeight_finite [OF w] assms
  show h: "H = of_nat (height c) * 210 / of_nat (width c)" by simp
  show "0 \<le> H" unfolding h by simp
qed

lemma paginate_pages:
  assumes acc: "\<And>d. throws c d = None" and fin: "imgHeight c = Fin H"
  shows "\<exists>q. paginate throws c = Some (Inr q) \<and>
           pages q = map (\<lambda>i. [\<lparr>dx = Fin 0, dy = Fin (- (297 * of_nat i)), dw = imgWidth, dh = Fin H\<rparr>])
                       [0..<Suc (nat \<lfloor>H / 297\<rfloor>)]"
proof -
  define n where "n = nat \<lfloor>H / 297\<rfloor>"
  let ?d0 = "\<lparr>dx = Fin 0, dy = Fin 0, dw = imgWidth, dh = Fin H\<rparr>"
  define p0 where "p0 = \<lparr>earlier = [], current = [?d0]\<rparr>"
  have H0: "0 \<le> H" using imgHeight_Fin(3) [OF fin] .
  then have fl0: "0 \<le> \<lfloor>H / 297\<rfloor>" by simp
  then have n: "(of_nat n :: rat) = of_int \<lfloor>H / 297\<rfloor>" by (simp add: n_def)
  have lo: "297 * (of_nat n :: rat) \<le> H"
    using of_int_floor_le [of "H / 297"] by (simp add: n)
  have hi: "H < 297 * (of_nat n + 1)"
    using floor_correct [of "H / 297"] by (simp add: n field_simps)
  have first: "addImage throws new_jsPDF c ?d0 = Inr p0"
    by (simp add: addImage_def new_jsPDF_def p0_def acc)
  have start: "paginate throws c = add_pages throws c (Fin H) (Fin (H - 297)) p0"
    by (simp add: paginate_def fin first pageHeight_def)
  have a: "H - 297 < 297 * of_nat n" using hi by (simp add: algebra_simps)
  have b: "0 < n \<longrightarrow> 297 * (of_nat n - 1) \<le> H - 297" using lo by (simp add: algebra_simps)
  from add_pages_finite [of throws c "H - 297" n H p0, OF acc a b] obtain q where
    q: "add_pages throws c (Fin H) (Fin (H - 297)) p0 = Some (Inr q)"
       "pages q = pages p0 @ map (\<lambda>j. [\<lparr>dx = Fin 0, dy = Fin (H - 297 - 297 * of_nat j - H), dw = imgWidth, dh = Fin H\<rparr>]) [0..<n]"
    by (elim exE conjE)
  have pq: "pages q = map (\<lambda>i. [\<lparr>dx = Fin 0, dy = Fin (- (297 * of_nat i)), dw = imgWidth, dh = Fin H\<rparr>]) [0..<Suc n]"
    unfolding q(2) by (simp add: p0_def pages_def map_upt_Suc algebra_simps del: upt_Suc)
  show ?thesis
  proof (intro exI conjI)
    show "paginate throws c = Some (Inr q)" by (simp only: start q(1))
    show "pages q = map (\<lambda>i. [\<lparr>dx = Fin 0, dy = Fin (- (297 * of_nat i)), dw = imgWidth, dh = Fin H\<rparr>])
                       [0..<Suc (nat \<lfloor>H / 297\<rfloor>)]"
      using pq by (simp only: n_def)
  qed
qed

lemma offsets_of_pages:
  "pages q = map (\<lambda>i. [\<lparr>dx = Fin 0, dy = Fin (- (297 * of_nat i)), dw = imgWidth, dh = Fin H\<rparr>]) [0..<n]
   \<Longrightarrow> offsets q = map (\<lambda>i. [Fin (- (of_nat i * 297))]) [0..<n]"
  by (simp add: offsets_def mult.commute)

lemma paginate_page_count:
  assumes acc: "\<And>d. throws c d = None" and fin: "imgHeight c = Fin H"
  shows "\<exists>q. paginate throws c = Some (Inr q) \<and> length (pages q) = nat \<lfloor>H / 297\<rfloor> + 1 \<and>
           H < rendered_height q"
proof -
  from paginate_pages [of throws c, OF acc fin] obtain q where
    q: "paginate throws c = Some (Inr q)"
       "pages q = map (\<lambda>i. [\<lparr>dx = Fin 0, dy = Fin (- (297 * of_nat i)), dw = imgWidth, dh = Fin H\<rparr>])
                       [0..<Suc (nat \<lfloor>H / 297\<rfloor>)]"
    by (elim exE conjE)
  have len: "length (pages q) = nat \<lfloor>H / 297\<rfloor> + 1" by (simp add: q(2))
  have "0 \<le> H" using imgHeight_Fin(3) [OF fin] .
  then have "0 \<le> \<lfloor>H / 297\<rfloor>" by simp
  then have "(of_nat (nat \<lfloor>H / 297\<rfloor>) :: rat) = of_int \<lfloor>H / 297\<rfloor>" by simp
  moreover have "H / 297 < of_int \<lfloor>H / 297\<rfloor> + 1" using floor_correct [of "H / 297"] by simp
  ultimately have "H < rendered_height q"
    by (simp add: rendered_height_def len field_simps)
  with q(1) len show ?thesis by (intro exI conjI)
qed

lemma paginate_single_page:
  assumes acc: "\<And>d. throws c d = None" and fin: "imgHeight c = Fin H" and lt: "H < 297"
  shows "\<exists>q. paginate throws c = Some (Inr q) \<and> offsets q = [[Fin 0]]"
proof -
  have "0 \<le> H" using imgHeight_Fin(3) [OF fin] .
  with lt have "\<lfloor>H / 297\<rfloor> = 0" by (simp add: floor_unique)
  then have one: "Suc (nat \<lfloor>H / 297\<rfloor>) = Suc 0" by simp
  from paginate_pages [of throws c, OF acc fin] obtain q where
    q: "paginate throws c = Some (Inr q)"
       "pages q = map (\<lambda>i. [\<lparr>dx = Fin 0, dy = Fin (- (297 * of_nat i)), dw = imgWidth, dh = Fin H\<rparr>])
                       [0..<Suc 0]"
    unfolding one by (elim exE conjE)
  have "offsets q = [[Fin 0]]" by (simp add: offsets_def q(2))
  with q(1) show ?thesis by (intro exI conjI)
qed

lemma paginate_exact_multiple:
  assumes acc: "\<And>d. throws c d = None" and fin: "imgHeight c = Fin (of_nat k * 297)"
  shows "\<exists>q. paginate throws c = Some (Inr q) \<and> length (pages q) = k + 1 \<and>
           last (offsets q) = [Fin (- (of_nat k * 297))]"
proof -
  have "\<lfloor>(of_nat k * 297 :: rat) / 297\<rfloor> = int k" by simp
  then have n: "Suc (nat \<lfloor>(of_nat k * 297 :: rat) / 297\<rfloor>) = Suc k" by simp
  from paginate_pages [of throws c, OF acc fin] obtain q where
    q: "paginate throws c = Some (Inr q)"
       "pages q = map (\<lambda>i. [\<lparr>dx = Fin 0, dy = Fin (- (297 * of_nat i)), dw = imgWidth, dh = Fin (of_nat k * 297)\<rparr>])
                       [0..<Suc k]"
    unfolding n by (elim exE conjE)
  have "length (pages q) = k + 1" by (simp add: q(2))
  moreover have "last (offsets q) = [Fin (- (of_nat k * 297))]"
    by (simp add: offsets_def q(2) mult.commute)
  ultimately show ?thesis using q(1) by (intro exI conjI)
qed

text \<open>Unfolding a run on a concrete canvas.\<close>

lemmas run_simps = paginate_def imgHeight_def imgWidth_def pageHeight_def addImage_def addPage_def
  new_jsPDF_def add_pages.simps offsets_def pages_def rendered_height_def Let_def

section \<open>The claims about pagination\<close>

text \<open>
  C1. The claim: a scaled height of exactly \<open>k * 297\<close> gives exactly \<open>k\<close> placements and no
  trailing blank page. The loop test is \<^verbatim>\<open>heightLeft >= 0\<close>, which still holds when
  nothing is left: a canvas of 700 by 1980 pixels has the scaled height \<open>594 = 2 * 297\<close>
  and the export draws three pages, the third at the offset -594, past the end of the
  image. The comment of line 194 (subsequent pages "if content is longer than one
  page") says what was meant; \<open>paginate_exact_multiple\<close> is the general form.
\<close>

theorem exact_multiple_trailing_page:
  "imgHeight \<lparr>width = 700, height = 1980\<rparr> = Fin (2 * 297) \<and>
   paginate (\<lambda>_ _. None) \<lparr>width = 700, height = 1980\<rparr> =
     Some (Inr \<lparr>earlier = [[\<lparr>dx = Fin 0, dy = Fin 0, dw = Fin 210, dh = Fin 594\<rparr>],
                             [\<lparr>dx = Fin 0, dy = Fin (- 297), dw = Fin 210, dh = Fin 594\<rparr>]],
                  current = [\<lparr>dx = Fin 0, dy = Fin (- 594), dw = Fin 210, dh = Fin 594\<rparr>]\<rparr>)"
  by (simp add: run_simps)

text \<open>
  C2. The claim: an image that fits within one page, \<open>pixelHeight \<le> 297 * pixelWidth / 210\<close>,
  gives exactly one placement, at the offset 0. Below the bound this holds
  (\<open>paginate_single_page\<close>); at the bound the same loop test adds a second, blank page:
  a canvas of 700 by 990 pixels has the scaled height 297 and is exported on two pages.
\<close>

theorem one_page_image_gets_two_pages:
  "(of_nat (height \<lparr>width = 700, height = 990\<rparr>) :: rat)
      \<le> 297 * of_nat (width \<lparr>width = 700, height = 990\<rparr>) / 210 \<and>
   paginate (\<lambda>_ _. None) \<lparr>width = 700, height = 990\<rparr> =
     Some (Inr \<lparr>earlier = [[\<lparr>dx = Fin 0, dy = Fin 0, dw = Fin 210, dh = Fin 297\<rparr>]],
                  current = [\<lparr>dx = Fin 0, dy = Fin (- 297), dw = Fin 210, dh = Fin 297\<rparr>]\<rparr>)"
  by (simp add: run_simps)

text \<open>
  C3. When the scaled height is \<open>k * 297 + r\<close> with \<open>0 < r < 297\<close>, and \<^verbatim>\<open>addImage\<close> accepts
  its calls, the export returns a document of exactly \<open>k + 1\<close> pages, the page of index
  \<open>i\<close> holding one image at the vertical offset \<open>- (i * 297)\<close>. A canvas of 1000 by 3000
  pixels has the scaled height 630 and gives three pages at the offsets 0, -297, -594.
\<close>

theorem paginate_remainder_pages:
  assumes "\<forall>d. throws c d = None"
    and "\<forall>d. throws \<lparr>width = 1000, height = 3000\<rparr> d = None"
    and "imgHeight c = Fin (of_nat k * 297 + r)" and "0 < r" and "r < 297"
  shows "(\<exists>q. paginate throws c = Some (Inr q) \<and> length (pages q) = k + 1 \<and>
             offsets q = map (\<lambda>i. [Fin (- (of_nat i * 297))]) [0..<k + 1]) \<and>
         imgHeight \<lparr>width = 1000, height = 3000\<rparr> = Fin 630 \<and>
         (\<exists>q. paginate throws \<lparr>width = 1000, height = 3000\<rparr> = Some (Inr q) \<and>
             offsets q = [[Fin 0], [Fin (- 297)], [Fin (- 594)]])"
proof (intro conjI)
  have acc: "\<And>d. throws c d = None" using assms(1) by simp
  have acc': "\<And>d. throws \<lparr>width = 1000, height = 3000\<rparr> d = None" using assms(2) by simp
  have "\<lfloor>(of_nat k * 297 + r) / 297\<rfloor> = int k"
    using assms(4,5) by (simp add: floor_unique field_simps)
  then have n: "Suc (nat \<lfloor>(of_nat k * 297 + r) / 297\<rfloor>) = k + 1" by simp
  from paginate_pages [of throws c, OF acc assms(3)] obtain q where
    q: "paginate throws c = Some (Inr q)"
       "pages q = map (\<lambda>i. [\<lparr>dx = Fin 0, dy = Fin (- (297 * of_nat i)), dw = imgWidth, dh = Fin (of_nat k * 297 + r)\<rparr>]) [0..<k + 1]"
    unfolding n by (elim exE conjE)
  show "\<exists>q. paginate throws c = Some (Inr q) \<and> length (pages q) = k + 1 \<and>
             offsets q = map (\<lambda>i. [Fin (- (of_nat i * 297))]) [0..<k + 1]"
  proof (intro exI conjI)
    show "paginate throws c = Some (Inr q)" by (rule q(1))
    show "length (pages q) = k + 1" by (simp add: q(2))
    show "offsets q = map (\<lambda>i. [Fin (- (of_nat i * 297))]) [0..<k + 1]"
      by (rule offsets_of_pages [OF q(2)])
  qed
  show h: "imgHeight \<lparr>width = 1000, height = 3000\<rparr> = Fin 630"
    by (simp add: imgHeight_def imgWidth_def)
  have "\<lfloor>630 / 297 :: rat\<rfloor> = 2" by (rule floor_unique) simp_all
  then have three: "Suc (nat \<lfloor>630 / 297 :: rat\<rfloor>) = Suc (Suc (Suc 0))" by simp
  from paginate_pages [of throws "\<lparr>width = 1000, height = 3000\<rparr>", OF acc' h] obtain q' where
    q': "paginate throws \<lparr>width = 1000, height = 3000\<rparr> = Some (Inr q')"
       "pages q' = map (\<lambda>i. [\<lparr>dx = Fin 0, dy = Fin (- (297 * of_nat i)), dw = imgWidth, dh = Fin 630\<rparr>]) [0..<Suc (Suc (Suc 0))]"
    unfolding three by (elim exE conjE)
  have "offsets q' = map (\<lambda>i. [Fin (- (of_nat i * 297))]) [0..<Suc (Suc (Suc 0))]"
    by (rule offsets_of_pages [OF q'(2)])
  then have "offsets q' = [[Fin 0], [Fin (- 297)], [Fin (- 594)]]"
    by simp
  with q'(1) show "\<exists>q. paginate throws \<lparr>width = 1000, height = 3000\<rparr> = Some (Inr q) \<and>
             offsets q = [[Fin 0], [Fin (- 297)], [Fin (- 594)]]"
    by (intro exI conjI)
qed

theorem paginate_remainder_pages_witness:
  "imgHeight \<lparr>width = 420, height = 1200\<rparr> = Fin (of_nat 2 * 297 + 6) \<and> (0 :: rat) < 6 \<and> (6 :: rat) < 297 \<and>
   (\<exists>q. paginate (\<lambda>c d. if width c = 0 \<or> height c = 0 then Some ''Given canvas must have data'' else None)
          \<lparr>width = 420, height = 1200\<rparr> = Some (Inr q) \<and>
        length (pages q) = 3 \<and> offsets q = [[Fin 0], [Fin (- 297)], [Fin (- 594)]])"
proof -
  let ?lib = "(\<lambda>c d. if width c = 0 \<or> height c = 0 then Some ''Given canvas must have data'' else None)"
  have h: "imgHeight \<lparr>width = 420, height = 1200\<rparr> = Fin (of_nat 2 * 297 + 6)"
    by (simp add: imgHeight_def imgWidth_def)
  have a: "\<forall>d. ?lib \<lparr>width = 420, height = 1200\<rparr> d = None" by simp
  have b: "\<forall>d. ?lib \<lparr>width = 1000, height = 3000\<rparr> d = None" by simp
  from paginate_remainder_pages [of ?lib "\<lparr>width = 420, height = 1200\<rparr>" 2 6, OF a b h]
  have "\<exists>q. paginate ?lib \<lparr>width = 420, height = 1200\<rparr> = Some (Inr q) \<and> length (pages q) = 2 + 1 \<and>
             offsets q = map (\<lambda>i. [Fin (- (of_nat i * 297))]) [0..<2 + 1]"
    by simp
  then have "\<exists>q. paginate ?lib \<lparr>width = 420, height = 1200\<rparr> = Some (Inr q) \<and> length (pages q) = 3 \<and>
        offsets q = [[Fin 0], [Fin (- 297)], [Fin (- 594)]]"
    by (simp add: eval_nat_numeral)
  with h show ?thesis by simp
qed

text \<open>
  C6. For a canvas of width 0 (the DOM has no negative width) the export fails and
  nothing is drawn or saved. The handler has no test of the width; the failure is the
  error that \<^verbatim>\<open>addImage\<close> throws for a canvas without data, in the first call of line
  191, before any page is drawn. The \<^verbatim>\<open>catch\<close> of line 206 reports it as
  "Failed to generate PDF: " followed by the library's message. That the library
  rejects such a canvas is the side condition.
\<close>

theorem zero_width_export_fails:
  assumes "truthy (rawOutput st)" and "element env" and "capture env = Resolved c"
    and "width c = 0"
    and "\<forall>c d. width c = 0 \<longrightarrow> addImageThrows env c d \<noteq> None"
  shows "\<exists>msg. addImageThrows env c \<lparr>dx = Fin 0, dy = Fin 0, dw = imgWidth, dh = imgHeight c\<rparr> = Some msg \<and>
           paginate (addImageThrows env) c = Some (Inl msg) \<and>
           handleDownload env st = Some (st\<lparr>error := ''Failed to generate PDF: '' @ msg\<rparr>, None)"
proof -
  let ?d0 = "\<lparr>dx = Fin 0, dy = Fin 0, dw = imgWidth, dh = imgHeight c\<rparr>"
  from assms(4,5) have "addImageThrows env c ?d0 \<noteq> None" by blast
  then obtain msg where msg: "addImageThrows env c ?d0 = Some msg" by auto
  then have pag: "paginate (addImageThrows env) c = Some (Inl msg)"
    by (simp add: paginate_def addImage_def Let_def)
  have "handleDownload env st = Some (st\<lparr>error := ''Failed to generate PDF: '' @ msg\<rparr>, None)"
    using assms(1-3) by (simp add: handleDownload_def pag)
  with msg pag show ?thesis by (intro exI conjI)
qed

theorem zero_width_export_fails_witness:
  "truthy (JStr ''<h2>Summary</h2>'') \<and> width \<lparr>width = 0, height = 800\<rparr> = 0 \<and>
   handleDownload
     \<lparr>element = True, capture = Resolved \<lparr>width = 0, height = 800\<rparr>,
      addImageThrows = (\<lambda>c d. if width c = 0 \<or> height c = 0 then Some ''Given canvas must have data'' else None),
      isoNow = ''2025-04-17T09:30:00.000Z''\<rparr>
     \<lparr>medicalText = ''notes'', rawOutput = JStr ''<h2>Summary</h2>'', loading = False,
      error = [], showModal = True, isCached = False\<rparr>
   = Some (\<lparr>medicalText = ''notes'', rawOutput = JStr ''<h2>Summary</h2>'', loading = False,
            error = ''Failed to generate PDF: Given canvas must have data'', showModal = True,
            isCached = False\<rparr>, None)"
proof -
  let ?st = "\<lparr>medicalText = ''notes'', rawOutput = JStr ''<h2>Summary</h2>'', loading = False,
      error = [], showModal = True, isCached = False\<rparr>"
  let ?c = "\<lparr>width = 0, height = 800\<rparr>"
  let ?env = "\<lparr>element = True, capture = Resolved ?c,
      addImageThrows = (\<lambda>c d. if width c = 0 \<or> height c = 0 then Some ''Given canvas must have data'' else None),
      isoNow = ''2025-04-17T09:30:00.000Z''\<rparr>"
  have t: "truthy (rawOutput ?st)" by simp
  have e: "element ?env" and k: "capture ?env = Resolved ?c" by simp_all
  have w: "width ?c = 0" by simp
  have l: "\<forall>c d. width c = 0 \<longrightarrow> addImageThrows ?env c d \<noteq> None" by simp
  from zero_width_export_fails [OF t e k w l]
  show ?thesis by simp
qed

text \<open>
  C8. The claim: the pages of the export together render \<open>\<lceil>H / 297\<rceil> * 297\<close> mm for a
  scaled height \<open>H\<close>, and that is at least \<open>H\<close>. Nothing is lost
  (\<open>paginate_page_count\<close>: the rendered height exceeds \<open>H\<close>), but at an exact multiple the
  blank page of C1 is counted too: a canvas of 700 by 2970 pixels has the scaled height
  \<open>891 = 3 * 297\<close> and is rendered on four pages, 1188 mm.
\<close>

theorem rendered_height_exceeds_ceiling:
  "imgHeight \<lparr>width = 700, height = 2970\<rparr> = Fin 891 \<and>
   (\<exists>q. paginate (\<lambda>_ _. None) \<lparr>width = 700, height = 2970\<rparr> = Some (Inr q) \<and>
        rendered_height q = 1188) \<and>
   of_int \<lceil>891 / 297 :: rat\<rceil> * (297 :: rat) = 891"
  by (simp add: run_simps)

section \<open>The claims about submission\<close>

lemma extract_request_begin_submit [simp]:
  "extract_request (begin_submit st) = extract_request st"
  by (simp add: extract_request_def begin_submit_def)

lemma handleSubmit_sent:
  "trim (medicalText st) \<noteq> [] \<Longrightarrow>
   handleSubmit env st =
     ((case try_submit env (begin_submit st) of
         Inr st' \<Rightarrow> st'
       | Inl msg \<Rightarrow> catch_submit msg (begin_submit st))\<lparr>loading := False\<rparr>,
      [extract_request st])"
  by (simp add: handleSubmit_def Let_def)

lemma try_submit_rejected:
  "fetch env (extract_request st) = Rejected msg \<Longrightarrow> try_submit env (begin_submit st) = Inl msg"
  by (simp add: try_submit_def)

lemma try_submit_not_ok:
  "fetch env (extract_request st) = Resolved r \<Longrightarrow> \<not> ok r \<Longrightarrow>
   try_submit env (begin_submit st) =
     Inl (case text_body r of
            Rejected msg \<Rightarrow> msg
          | Resolved body \<Rightarrow> ''HTTP '' @ show_nat (status r) @ '': '' @ body)"
  by (simp add: try_submit_def split: settled.splits)

lemma try_submit_ok:
  "fetch env (extract_request st) = Resolved r \<Longrightarrow> ok r \<Longrightarrow> json_body r = Resolved result \<Longrightarrow>
   get_prop (typeErrorMessage env) result ''raw_llama_output'' = Inr v \<Longrightarrow>
   try_submit env (begin_submit st) =
     Inr (if truthy v
          then (begin_submit st)\<lparr>rawOutput := v, showModal := True,
                 isCached := (responseTime env < 100)\<rparr>
          else (begin_submit st)\<lparr>rawOutput := JStr (stringify env result), showModal := True\<rparr>)"
  by (simp add: try_submit_def Let_def)

lemma catch_submit_keeps:
  "rawOutput (catch_submit msg st) = rawOutput st"
  "isCached (catch_submit msg st) = isCached st"
  "error (catch_submit msg st) \<noteq> []"
  by (simp_all add: catch_submit_def)

lemma http_error_surfaced:
  assumes "trim (medicalText st) \<noteq> []"
    and "fetch env (extract_request st) = Resolved r" and "\<not> ok r"
    and "text_body r = Resolved body"
    and "\<not> includes_js (''HTTP '' @ show_nat (status r) @ '': '' @ body) ''Failed to fetch''"
  shows "error (fst (handleSubmit env st)) = ''Error: HTTP '' @ show_nat (status r) @ '': '' @ body"
  using assms(4,5)
  by (simp add: handleSubmit_sent [OF assms(1)] try_submit_not_ok [OF assms(2,3)] catch_submit_def)

text \<open>
  C4. When the service answers with a truthy \<^verbatim>\<open>raw_llama_output\<close>, the answer is labelled
  as cached exactly when the elapsed time that line 73 computes is below 100 ms: the
  comparison is strict and the threshold is the constant of line 74. So an elapsed time
  of 50 ms is labelled cached, 150 ms and 100 ms are not.
\<close>

theorem latency_classification:
  assumes "trim (medicalText st) \<noteq> []"
    and "fetch env (extract_request st) = Resolved r" and "ok r"
    and "json_body r = Resolved result"
    and "get_prop (typeErrorMessage env) result ''raw_llama_output'' = Inr v" and "truthy v"
  shows "isCached (fst (handleSubmit env st)) = (responseTime env < 100)"
  by (simp add: handleSubmit_sent [OF assms(1)] try_submit_ok [OF assms(2-5)] assms(6))

theorem latency_classification_witness:
  "trim ''chest pain'' \<noteq> [] \<and>
   ok \<lparr>status = 200, text_body = Resolved [], json_body = Resolved (JObj [(''raw_llama_output'', JStr ''<h2>Summary</h2>'')])\<rparr> \<and>
   isCached (fst (handleSubmit
     \<lparr>fetch = (\<lambda>_. Resolved \<lparr>status = 200, text_body = Resolved [],
                 json_body = Resolved (JObj [(''raw_llama_output'', JStr ''<h2>Summary</h2>'')])\<rparr>),
      responseTime = 50, stringify = (\<lambda>_. []), typeErrorMessage = []\<rparr>
     \<lparr>medicalText = ''chest pain'', rawOutput = JStr [], loading = False, error = [],
      showModal = False, isCached = False\<rparr>)) \<and>
   \<not> isCached (fst (handleSubmit
     \<lparr>fetch = (\<lambda>_. Resolved \<lparr>status = 200, text_body = Resolved [],
                 json_body = Resolved (JObj [(''raw_llama_output'', JStr ''<h2>Summary</h2>'')])\<rparr>),
      responseTime = 150, stringify = (\<lambda>_. []), typeErrorMessage = []\<rparr>
     \<lparr>medicalText = ''chest pain'', rawOutput = JStr [], loading = False, error = [],
      showModal = False, isCached = False\<rparr>)) \<and>
   \<not> isCached (fst (handleSubmit
     \<lparr>fetch = (\<lambda>_. Resolved \<lparr>status = 200, text_body = Resolved [],
                 json_body = Resolved (JObj [(''raw_llama_output'', JStr ''<h2>Summary</h2>'')])\<rparr>),
      responseTime = 100, stringify = (\<lambda>_. []), typeErrorMessage = []\<rparr>
     \<lparr>medicalText = ''chest pain'', rawOutput = JStr [], loading = False, error = [],
      showModal = False, isCached = False\<rparr>))"
proof -
  let ?st = "\<lparr>medicalText = ''chest pain'', rawOutput = JStr [], loading = False, error = [],
      showModal = False, isCached = False\<rparr>"
  let ?v = "JStr ''<h2>Summary</h2>''"
  let ?res = "JObj [(''raw_llama_output'', ?v)]"
  let ?r = "\<lparr>status = 200, text_body = Resolved [], json_body = Resolved ?res\<rparr>"
  let ?env = "\<lambda>t. \<lparr>fetch = (\<lambda>_. Resolved ?r), responseTime = t,
      stringify = (\<lambda>_. []), typeErrorMessage = []\<rparr>"
  have a: "trim (medicalText ?st) \<noteq> []" by (simp add: trim_def js_whitespace_def)
  have b: "fetch (?env t) (extract_request ?st) = Resolved ?r" for t by simp
  have c: "ok ?r" by (simp add: ok_def)
  have d: "json_body ?r = Resolved ?res" by simp
  have e: "get_prop (typeErrorMessage (?env t)) ?res ''raw_llama_output'' = Inr ?v" for t by simp
  have f: "truthy ?v" by simp
  from latency_classification [OF a b c d e f, of 50]
    latency_classification [OF a b c d e f, of 150]
    latency_classification [OF a b c d e f, of 100] a c
  show ?thesis by simp
qed

text \<open>
  C5. When the text is empty after trimming (the empty string included), the handler
  sets the message "Please enter medical text", changes nothing else and sends no
  request.
\<close>

theorem blank_input_rejected:
  assumes "trim (medicalText st) = []"
  shows "handleSubmit env st = (st\<lparr>error := ''Please enter medical text''\<rparr>, [])"
  using assms by (simp add: handleSubmit_def)

theorem blank_input_rejected_witness:
  "trim [CHR 0x20, CHR 0x09, CHR 0x0A] = [] \<and> trim [] = [] \<and>
   handleSubmit
     \<lparr>fetch = (\<lambda>_. Rejected ''Failed to fetch''), responseTime = 1,
      stringify = (\<lambda>_. []), typeErrorMessage = []\<rparr>
     \<lparr>medicalText = [CHR 0x20, CHR 0x09, CHR 0x0A], rawOutput = JStr ''<h2>Summary</h2>'',
      loading = False, error = [], showModal = False, isCached = True\<rparr>
   = (\<lparr>medicalText = [CHR 0x20, CHR 0x09, CHR 0x0A], rawOutput = JStr ''<h2>Summary</h2>'',
       loading = False, error = ''Please enter medical text'', showModal = False,
       isCached = True\<rparr>, []) \<and>
   handleSubmit
     \<lparr>fetch = (\<lambda>_. Rejected ''Failed to fetch''), responseTime = 1,
      stringify = (\<lambda>_. []), typeErrorMessage = []\<rparr>
     \<lparr>medicalText = [], rawOutput = JStr [], loading = False, error = [],
      showModal = False, isCached = False\<rparr>
   = (\<lparr>medicalText = [], rawOutput = JStr [], loading = False,
       error = ''Please enter medical text'', showModal = False, isCached = False\<rparr>, [])"
proof -
  let ?env = "\<lparr>fetch = (\<lambda>_. Rejected ''Failed to fetch''), responseTime = 1,
      stringify = (\<lambda>_. []), typeErrorMessage = []\<rparr>"
  let ?blank = "\<lparr>medicalText = [CHR 0x20, CHR 0x09, CHR 0x0A], rawOutput = JStr ''<h2>Summary</h2>'',
      loading = False, error = [], showModal = False, isCached = True\<rparr>"
  let ?empty = "\<lparr>medicalText = [], rawOutput = JStr [], loading = False, error = [],
      showModal = False, isCached = False\<rparr>"
  have a: "trim [CHR 0x20, CHR 0x09, CHR 0x0A] = []" and b: "trim [] = []"
    by (simp_all add: trim_def js_whitespace_def)
  have a': "trim (medicalText ?blank) = []" using a by simp
  have b': "trim (medicalText ?empty) = []" using b by simp
  from blank_input_rejected [OF a', of ?env] blank_input_rejected [OF b', of ?env] a b
  show ?thesis by simp
qed

text \<open>
  C7. The claim: a response with a status outside 200 to 299 is reported with its status
  and its body. The handler throws "HTTP status: body" for it, and the \<^verbatim>\<open>catch\<close> block
  reports the message after "Error: " (\<open>http_error_surfaced\<close>) unless the message
  contains "Failed to fetch", the test meant for a failed connection. A body with these
  words hides the status and the body: a 500 answering "Failed to fetch model" is
  reported as a connection error.
\<close>

theorem http_error_reported_as_connection_error:
  "\<not> ok \<lparr>status = 500, text_body = Resolved ''Failed to fetch model'',
          json_body = Rejected ''Unexpected token''\<rparr> \<and>
   error (fst (handleSubmit
     \<lparr>fetch = (\<lambda>_. Resolved \<lparr>status = 500, text_body = Resolved ''Failed to fetch model'',
                             json_body = Rejected ''Unexpected token''\<rparr>),
      responseTime = 250, stringify = (\<lambda>_. []), typeErrorMessage = []\<rparr>
     \<lparr>medicalText = ''chest pain'', rawOutput = JStr [], loading = False, error = [],
      showModal = False, isCached = False\<rparr>))
   = ''Connection error. Make sure the backend server is running on port 8000.''"
  by (simp add: handleSubmit_def begin_submit_def try_submit_def catch_submit_def ok_def
      extract_request_def trim_def js_whitespace_def Let_def)

text \<open>
  C9. A submission that sends a request first clears the output and the cached label
  (lines 47 and 48), and no failure path sets them again: after a rejected \<^verbatim>\<open>fetch\<close> or
  a response with a status outside 200 to 299, the output is the empty string, the
  label is off and an error message is set, whatever was shown before.
\<close>

theorem failed_exchange_clears_result:
  assumes "trim (medicalText st) \<noteq> []"
    and "(\<exists>msg. fetch env (extract_request st) = Rejected msg) \<or>
         (\<exists>r. fetch env (extract_request st) = Resolved r \<and> \<not> ok r)"
  shows "rawOutput (begin_submit st) = JStr [] \<and> isCached (begin_submit st) = False \<and>
         rawOutput (fst (handleSubmit env st)) = JStr [] \<and>
         isCached (fst (handleSubmit env st)) = False \<and>
         error (fst (handleSubmit env st)) \<noteq> []"
proof -
  have b: "rawOutput (begin_submit st) = JStr []" "isCached (begin_submit st) = False"
    by (simp_all add: begin_submit_def)
  from assms(2) obtain msg where "try_submit env (begin_submit st) = Inl msg"
    using try_submit_rejected try_submit_not_ok by blast
  then have "fst (handleSubmit env st) = (catch_submit msg (begin_submit st))\<lparr>loading := False\<rparr>"
    by (simp add: handleSubmit_sent [OF assms(1)])
  then show ?thesis by (simp add: catch_submit_keeps b)
qed

theorem failed_exchange_clears_result_witness:
  "rawOutput (fst (handleSubmit
     \<lparr>fetch = (\<lambda>_. Rejected ''Failed to fetch''), responseTime = 30,
      stringify = (\<lambda>_. []), typeErrorMessage = []\<rparr>
     \<lparr>medicalText = ''chest pain'', rawOutput = JStr ''<h2>Summary</h2>'', loading = False,
      error = [], showModal = True, isCached = True\<rparr>)) = JStr [] \<and>
   \<not> isCached (fst (handleSubmit
     \<lparr>fetch = (\<lambda>_. Rejected ''Failed to fetch''), responseTime = 30,
      stringify = (\<lambda>_. []), typeErrorMessage = []\<rparr>
     \<lparr>medicalText = ''chest pain'', rawOutput = JStr ''<h2>Summary</h2>'', loading = False,
      error = [], showModal = True, isCached = True\<rparr>)) \<and>
   rawOutput (fst (handleSubmit
     \<lparr>fetch = (\<lambda>_. Resolved \<lparr>status = 503, text_body = Resolved ''busy'',
                             json_body = Rejected ''Unexpected token''\<rparr>),
      responseTime = 30, stringify = (\<lambda>_. []), typeErrorMessage = []\<rparr>
     \<lparr>medicalText = ''chest pain'', rawOutput = JStr ''<h2>Summary</h2>'', loading = False,
      error = [], showModal = True, isCached = True\<rparr>)) = JStr [] \<and>
   \<not> isCached (fst (handleSubmit
     \<lparr>fetch = (\<lambda>_. Resolved \<lparr>status = 503, text_body = Resolved ''busy'',
                             json_body = Rejected ''Unexpected token''\<rparr>),
      responseTime = 30, stringify = (\<lambda>_. []), typeErrorMessage = []\<rparr>
     \<lparr>medicalText = ''chest pain'', rawOutput = JStr ''<h2>Summary</h2>'', loading = False,
      error = [], showModal = True, isCached = True\<rparr>))"
proof -
  let ?st = "\<lparr>medicalText = ''chest pain'', rawOutput = JStr ''<h2>Summary</h2>'', loading = False,
      error = [], showModal = True, isCached = True\<rparr>"
  let ?down = "\<lparr>fetch = (\<lambda>_. Rejected ''Failed to fetch''), responseTime = 30,
      stringify = (\<lambda>_. []), typeErrorMessage = []\<rparr>"
  let ?r = "\<lparr>status = 503, text_body = Resolved ''busy'', json_body = Rejected ''Unexpected token''\<rparr>"
  let ?busy = "\<lparr>fetch = (\<lambda>_. Resolved ?r),
      responseTime = 30, stringify = (\<lambda>_. []), typeErrorMessage = []\<rparr>"
  have a: "trim (medicalText ?st) \<noteq> []" by (simp add: trim_def js_whitespace_def)
  have b: "(\<exists>msg. fetch ?down (extract_request ?st) = Rejected msg) \<or>
           (\<exists>r. fetch ?down (extract_request ?st) = Resolved r \<and> \<not> ok r)" by simp
  have "\<not> ok ?r" by (simp add: ok_def)
  then have c: "(\<exists>msg. fetch ?busy (extract_request ?st) = Rejected msg) \<or>
           (\<exists>r. fetch ?busy (extract_request ?st) = Resolved r \<and> \<not> ok r)" by simp
  from failed_exchange_clears_result [OF a b] failed_exchange_clears_result [OF a c]
  show ?thesis by simp
qed




end
